theory Spec2Isabelle
  imports Main
begin

section \<open>Python values\<close>

text \<open>
  The configuration handed to the scraper is a tree of JSON-like Python values; the walkers
  inspect it at run time (\<^verbatim>\<open>for x in v\<close>, \<^verbatim>\<open>v[k]\<close>, \<^verbatim>\<open>type(v) is dict\<close>,
  \<^verbatim>\<open>x.startswith("_")\<close>). A dict is an association list in insertion order, the order
  in which Python iterates its keys.
\<close>

datatype pyval =
    PNone
  | PBool bool
  | PInt int
  | PStr string
  | PList "pyval list"
  | PDict "(string \<times> pyval) list"

section \<open>The cache store (\<^verbatim>\<open>subscrape/db/subscrape_db.py\<close>)\<close>

text \<open>
  The three mapped classes. A column that is not the primary key is nullable, hence an
  option. The field names carry the table's prefix, since the three classes share column
  names (\<^verbatim>\<open>id\<close>, \<^verbatim>\<open>block_number\<close>, \<^verbatim>\<open>module\<close>, \<^verbatim>\<open>params\<close>,
  \<^verbatim>\<open>finalized\<close>) and \<^verbatim>\<open>id\<close> is the identity function of HOL.
\<close>

record Block =
  blk_block_number :: int

record Extrinsic =
  ex_id :: string
  ex_block_number :: "int option"
  ex_module :: "string option"
  ex_call :: "string option"
  ex_address :: "string option"
  ex_nonce :: "int option"
  ex_extrinsic_hash :: "string option"
  ex_success :: "bool option"
  ex_params :: "pyval option"
  ex_fee :: "int option"
  ex_fee_used :: "int option"
  ex_error :: "pyval option"
  ex_finalized :: "bool option"
  ex_tip :: "int option"

record Event =
  ev_id :: string
  ev_block_number :: "int option"
  ev_extrinsic_id :: "int option"
  ev_module :: "string option"
  ev_event :: "string option"
  ev_params :: "pyval option"
  ev_finalized :: "bool option"

text \<open>The rows of the three tables, as the queries of the session see them.\<close>

record database =
  blocks :: "Block list"
  extrinsics :: "Extrinsic list"
  events :: "Event list"

text \<open>
  Modelled from the spec: the ORM query interface (\<^verbatim>\<open>Query.filter\<close>, \<^verbatim>\<open>in_\<close>,
  \<^verbatim>\<open>all\<close>, \<^verbatim>\<open>get\<close>) belongs to the object-relational mapper, not to the repository.
  \<^verbatim>\<open>query(Event).filter(Event.id.in_(ids)).all()\<close> yields the rows whose id is among
  \<^verbatim>\<open>ids\<close>; \<^verbatim>\<open>query(Event).get(i)\<close> is the point lookup by primary key, \<^verbatim>\<open>None\<close>
  when there is no such row.
\<close>

definition query_events_id_in :: "database \<Rightarrow> string list \<Rightarrow> Event list" where
  "query_events_id_in db ids = filter (\<lambda>e. ev_id e \<in> set ids) (events db)"

definition query_events_get :: "database \<Rightarrow> string \<Rightarrow> Event option" where
  "query_events_get db i = find (\<lambda>e. ev_id e = i) (events db)"

text \<open>
  \<^verbatim>\<open>matches = self._session.query(Event).filter(Event.id.in_(index_list)).all()\<close>
  \<^verbatim>\<open>return [index for index in index_list if index not in [match.id for match in matches]]\<close>
\<close>

definition missing_events_from_index_list :: "database \<Rightarrow> string list \<Rightarrow> string list" where
  "missing_events_from_index_list db index_list =
     (let matches = query_events_id_in db index_list
      in filter (\<lambda>index. index \<notin> set (map ev_id matches)) index_list)"

definition read_event_metadata :: "database \<Rightarrow> string \<Rightarrow> Event option" where
  "read_event_metadata db event_id = (let result = query_events_get db event_id in result)"

definition read_event :: "database \<Rightarrow> string \<Rightarrow> Event option" where
  "read_event db event_id = (let result = query_events_get db event_id in result)"

text \<open>
  Modelled from the spec: \<^verbatim>\<open>Session.add\<close> and \<^verbatim>\<open>Session.commit\<close> belong to the
  object-relational mapper and the storage engine, which are not part of the repository;
  the source only declares the primary keys of the three tables. Following the spec,
  adding a record stages it, and the commit inserts all staged records in one transaction,
  which fails as a whole with a unique-constraint violation when a record's primary key
  is already there.
\<close>

datatype item = Block_item Block | Extrinsic_item Extrinsic | Event_item Event

datatype primary_key = Block_key int | Extrinsic_key string | Event_key string

datatype db_error = UniqueConstraintViolation

fun primary_key_of :: "item \<Rightarrow> primary_key" where
  "primary_key_of (Block_item b) = Block_key (blk_block_number b)"
| "primary_key_of (Extrinsic_item x) = Extrinsic_key (ex_id x)"
| "primary_key_of (Event_item e) = Event_key (ev_id e)"

definition stored_keys :: "database \<Rightarrow> primary_key list" where
  "stored_keys db =
     map (\<lambda>b. Block_key (blk_block_number b)) (blocks db) @
     map (\<lambda>x. Extrinsic_key (ex_id x)) (extrinsics db) @
     map (\<lambda>e. Event_key (ev_id e)) (events db)"

fun insert_item :: "database \<Rightarrow> item \<Rightarrow> database" where
  "insert_item db (Block_item b) = db\<lparr>blocks := blocks db @ [b]\<rparr>"
| "insert_item db (Extrinsic_item x) = db\<lparr>extrinsics := extrinsics db @ [x]\<rparr>"
| "insert_item db (Event_item e) = db\<lparr>events := events db @ [e]\<rparr>"

fun insert_all :: "database \<Rightarrow> item list \<Rightarrow> db_error + database" where
  "insert_all db [] = Inr db"
| "insert_all db (i # is) =
     (if primary_key_of i \<in> set (stored_keys db) then Inl UniqueConstraintViolation
      else insert_all (insert_item db i) is)"

record session =
  stored :: database
  staged :: "item list"

definition session_add :: "session \<Rightarrow> item \<Rightarrow> session" where
  "session_add s i = s\<lparr>staged := staged s @ [i]\<rparr>"

definition session_commit :: "session \<Rightarrow> db_error + session" where
  "session_commit s =
     (case insert_all (stored s) (staged s) of
        Inl e \<Rightarrow> Inl e
      | Inr db \<Rightarrow> Inr \<lparr>stored = db, staged = []\<rparr>)"

text \<open>\<^verbatim>\<open>self._session.add(item)\<close>\<close>

definition write_item :: "session \<Rightarrow> item \<Rightarrow> session" where
  "write_item s i = session_add s i"

text \<open>\<^verbatim>\<open>self._session.commit()\<close>\<close>

definition flush :: "session \<Rightarrow> db_error + session" where
  "flush s = session_commit s"

section \<open>The operation dispatcher (\<^verbatim>\<open>subscrape/scrapers/parachain_scraper.py\<close>)\<close>

subsection \<open>Exceptions, collaborators and observable events\<close>

text \<open>
  The exceptions the walk can raise by itself, and \<open>ApiError\<close> for whatever a fetch entry
  point raises; the dispatcher catches none of them.
\<close>

datatype error = TypeError | AttributeError | KeyError | ApiError string

text \<open>
  The source imports \<^verbatim>\<open>ScrapeConfig\<close> (the type of \<^verbatim>\<open>chain_config\<close>) and
  \<^verbatim>\<open>SubscanBase\<close> (the type of \<^verbatim>\<open>self.api\<close>) without defining them, so their
  operations are parameters: \<open>'cfg\<close> is the type of configuration scopes, \<open>'w\<close> the state
  of everything the fetch entry points read and write (remote service, cache). A fetch
  returns the number of items it scraped, or raises.
\<close>

record ('cfg, 'w) collaborators =
  create_inner_config :: "'cfg \<Rightarrow> pyval \<Rightarrow> 'cfg"
  skip :: "'cfg \<Rightarrow> bool"
  fetch_extrinsics_index :: "string \<Rightarrow> string \<Rightarrow> 'cfg \<Rightarrow> 'w \<Rightarrow> (error + int) \<times> 'w"
  fetch_events_index :: "string \<Rightarrow> string \<Rightarrow> 'cfg \<Rightarrow> 'w \<Rightarrow> (error + int) \<times> 'w"
  fetch_extrinsics :: "pyval \<Rightarrow> 'w \<Rightarrow> (error + int) \<times> 'w"
  fetch_events :: "pyval \<Rightarrow> 'w \<Rightarrow> (error + int) \<times> 'w"
  fetch_transfers :: "string \<Rightarrow> 'cfg \<Rightarrow> 'w \<Rightarrow> (error + int) \<times> 'w"

text \<open>
  What the walk does to its collaborators, in order: every call of
  \<^verbatim>\<open>create_inner_config\<close> (receiver and argument), every invocation of a fetch entry
  point with its arguments (\<open>Fetch_function\<close> is the call of the function handed to
  \<^verbatim>\<open>scrape_module_calls\<close>), and every log record.
\<close>

datatype 'cfg event =
    Create_inner_config 'cfg pyval
  | Fetch_function string string 'cfg
  | Fetch_extrinsics pyval
  | Fetch_events pyval
  | Fetch_transfers string 'cfg
  | Log_error string
  | Log_info string

text \<open>
  A call returns a value or raises, leaves a state of the collaborators and has emitted
  a sequence of events (also when it raises: what was done before stays done).
\<close>

type_synonym ('a, 'cfg, 'w) outcome = "(error + 'a) \<times> 'w \<times> 'cfg event list"

definition after_events :: "'cfg event list \<Rightarrow> ('a, 'cfg, 'w) outcome \<Rightarrow> ('a, 'cfg, 'w) outcome" where
  "after_events evs out = (case out of (r, w, evs') \<Rightarrow> (r, w, evs @ evs'))"

text \<open>\<^verbatim>\<open>items_scraped += <call>\<close>: the count of a call that returned is added.\<close>

definition add_count :: "int \<Rightarrow> (int, 'cfg, 'w) outcome \<Rightarrow> (int, 'cfg, 'w) outcome" where
  "add_count items_scraped out =
     (case out of
        (Inl e, w, evs) \<Rightarrow> (Inl e, w, evs)
      | (Inr n, w, evs) \<Rightarrow> (Inr (items_scraped + n), w, evs))"

text \<open>Invoking a fetch entry point of the API, recorded by the event \<open>ev\<close>.\<close>

definition call_api :: "('w \<Rightarrow> (error + int) \<times> 'w) \<Rightarrow> 'cfg event \<Rightarrow> 'w \<Rightarrow> (int, 'cfg, 'w) outcome" where
  "call_api f ev w = (case f w of (r, w') \<Rightarrow> (r, w', [ev]))"

subsection \<open>The Python operations the walk uses\<close>

text \<open>
  \<^verbatim>\<open>for x in v\<close>: the keys of a dict, the elements of a list, the characters of a string;
  \<^verbatim>\<open>TypeError\<close> for \<^verbatim>\<open>None\<close>, a bool or an int.
\<close>

fun iter_py :: "pyval \<Rightarrow> error + pyval list" where
  "iter_py (PDict kvs) = Inr (map (\<lambda>kv. PStr (fst kv)) kvs)"
| "iter_py (PList xs) = Inr xs"
| "iter_py (PStr s) = Inr (map (\<lambda>c. PStr [c]) s)"
| "iter_py PNone = Inl TypeError"
| "iter_py (PBool b) = Inl TypeError"
| "iter_py (PInt n) = Inl TypeError"

text \<open>\<^verbatim>\<open>s.startswith(p)\<close> on strings.\<close>

definition startswith :: "string \<Rightarrow> string \<Rightarrow> bool" where
  "startswith s p = (take (length p) s = p)"

text \<open>
  \<^verbatim>\<open>v[k]\<close> for a string \<open>k\<close>: the value under the key in a dict (\<^verbatim>\<open>KeyError\<close> when
  absent), \<^verbatim>\<open>TypeError\<close> for everything else (a list or a string is not indexed by a
  string, the other values are not subscriptable).
\<close>

fun getitem :: "pyval \<Rightarrow> string \<Rightarrow> error + pyval" where
  "getitem (PDict kvs) k = (case map_of kvs k of None \<Rightarrow> Inl KeyError | Some v \<Rightarrow> Inr v)"
| "getitem (PList xs) k = Inl TypeError"
| "getitem (PStr s) k = Inl TypeError"
| "getitem PNone k = Inl TypeError"
| "getitem (PBool b) k = Inl TypeError"
| "getitem (PInt n) k = Inl TypeError"

text \<open>\<^verbatim>\<open>type(v) is dict\<close>\<close>

fun is_dict :: "pyval \<Rightarrow> bool" where
  "is_dict (PDict kvs) = True"
| "is_dict PNone = False"
| "is_dict (PBool b) = False"
| "is_dict (PInt n) = False"
| "is_dict (PStr s) = False"
| "is_dict (PList xs) = False"

text \<open>
  \<^verbatim>\<open>await v\<close> for a value that a plain \<^verbatim>\<open>def\<close> returned: none of the values of
  \<open>pyval\<close> is awaitable, so it raises \<^verbatim>\<open>TypeError\<close>.
\<close>

definition await_py :: "pyval \<Rightarrow> error + int" where
  "await_py v = Inl TypeError"

text \<open>
  A \<^verbatim>\<open>for\<close> loop whose body updates the local \<^verbatim>\<open>items_scraped\<close> and either goes on
  (also by \<^verbatim>\<open>continue\<close>) or raises; an exception ends the loop and the function.
\<close>

fun for_loop ::
  "('x \<Rightarrow> int \<Rightarrow> 'w \<Rightarrow> (int, 'cfg, 'w) outcome) \<Rightarrow> 'x list \<Rightarrow> int \<Rightarrow> 'w \<Rightarrow> (int, 'cfg, 'w) outcome"
where
  "for_loop body [] items_scraped w = (Inr items_scraped, w, [])"
| "for_loop body (x # xs) items_scraped w =
     (case body x items_scraped w of
        (Inl e, w', evs) \<Rightarrow> (Inl e, w', evs)
      | (Inr items_scraped', w', evs) \<Rightarrow> after_events evs (for_loop body xs items_scraped' w'))"

subsection \<open>\<^verbatim>\<open>scrape_module_calls\<close>\<close>

text \<open>
  Lines 79 to 83, "deduce config": the scope of a call and the events of deriving it.
\<close>

definition deduce_call_config ::
  "('cfg, 'w) collaborators \<Rightarrow> pyval \<Rightarrow> 'cfg \<Rightarrow> string \<Rightarrow> error + 'cfg \<times> 'cfg event list"
where
  "deduce_call_config E calls module_config call =
     (if is_dict calls then
        (case getitem calls call of
           Inl e \<Rightarrow> Inl e
         | Inr v \<Rightarrow> Inr (create_inner_config E module_config v, [Create_inner_config module_config v]))
      else Inr (module_config, []))"

text \<open>The body of the loop over the calls of a module (lines 75 to 91).\<close>

definition call_body ::
  "('cfg, 'w) collaborators \<Rightarrow> (string \<Rightarrow> string \<Rightarrow> 'cfg \<Rightarrow> 'w \<Rightarrow> (error + int) \<times> 'w) \<Rightarrow>
   string \<Rightarrow> pyval \<Rightarrow> 'cfg \<Rightarrow> pyval \<Rightarrow> int \<Rightarrow> 'w \<Rightarrow> (int, 'cfg, 'w) outcome"
where
  "call_body E fetch_function module calls module_config call items_scraped w =
     (case call of
        PStr c \<Rightarrow>
          if startswith c ''_'' then (Inr items_scraped, w, [])
          else
            (case deduce_call_config E calls module_config c of
               Inl e \<Rightarrow> (Inl e, w, [])
             | Inr (call_config, evs) \<Rightarrow>
                 if skip E call_config then
                   (Inr items_scraped, w,
                    evs @ [Log_info (''Config asks to skip '' @ module @ '' '' @ c)])
                 else
                   after_events evs
                     (add_count items_scraped
                        (call_api (fetch_function module c call_config)
                           (Fetch_function module c call_config) w)))
      | _ \<Rightarrow> (Inl AttributeError, w, []))"

text \<open>The body of the loop over the modules (lines 67 to 91).\<close>

definition module_body ::
  "('cfg, 'w) collaborators \<Rightarrow> (string \<Rightarrow> string \<Rightarrow> 'cfg \<Rightarrow> 'w \<Rightarrow> (error + int) \<times> 'w) \<Rightarrow>
   pyval \<Rightarrow> 'cfg \<Rightarrow> pyval \<Rightarrow> int \<Rightarrow> 'w \<Rightarrow> (int, 'cfg, 'w) outcome"
where
  "module_body E fetch_function modules extrinsic_config module items_scraped w =
     (case module of
        PStr m \<Rightarrow>
          if startswith m ''_'' then (Inr items_scraped, w, [])
          else
            (case getitem modules m of
               Inl e \<Rightarrow> (Inl e, w, [])
             | Inr calls \<Rightarrow>
                 (let module_config = create_inner_config E extrinsic_config calls in
                  after_events [Create_inner_config extrinsic_config calls]
                    (case iter_py calls of
                       Inl e \<Rightarrow> (Inl e, w, [])
                     | Inr cs \<Rightarrow>
                         for_loop (call_body E fetch_function m calls module_config) cs
                           items_scraped w)))
      | _ \<Rightarrow> (Inl AttributeError, w, []))"

definition scrape_module_calls ::
  "('cfg, 'w) collaborators \<Rightarrow> pyval \<Rightarrow> 'cfg \<Rightarrow>
   (string \<Rightarrow> string \<Rightarrow> 'cfg \<Rightarrow> 'w \<Rightarrow> (error + int) \<times> 'w) \<Rightarrow> 'w \<Rightarrow> (int, 'cfg, 'w) outcome"
where
  "scrape_module_calls E modules chain_config fetch_function w =
     (let extrinsic_config = create_inner_config E chain_config modules in
      after_events [Create_inner_config chain_config modules]
        (case iter_py modules of
           Inl e \<Rightarrow> (Inl e, w, [])
         | Inr ms \<Rightarrow> for_loop (module_body E fetch_function modules extrinsic_config) ms 0 w))"

subsection \<open>\<^verbatim>\<open>scrape_transfers\<close>\<close>

text \<open>
  The body of the loop over the accounts (lines 108 to 123). \<^verbatim>\<open>type(account) is dict\<close>
  tests the key, which has passed \<^verbatim>\<open>account.startswith\<close>. The call of
  \<^verbatim>\<open>fetch_transfers\<close> is not awaited: it is taken to return its count directly.
\<close>

definition account_body ::
  "('cfg, 'w) collaborators \<Rightarrow> pyval \<Rightarrow> 'cfg \<Rightarrow> pyval \<Rightarrow> int \<Rightarrow> 'w \<Rightarrow> (int, 'cfg, 'w) outcome"
where
  "account_body E accounts accounts_config account items_scraped w =
     (case account of
        PStr a \<Rightarrow>
          if startswith a ''_'' then (Inr items_scraped, w, [])
          else
            (case (if is_dict (PStr a) then
                     (case getitem accounts a of
                        Inl e \<Rightarrow> Inl e
                      | Inr v \<Rightarrow> Inr (create_inner_config E accounts_config v,
                                       [Create_inner_config accounts_config v]))
                   else Inr (accounts_config, [])) of
               Inl e \<Rightarrow> (Inl e, w, [])
             | Inr (account_config, evs) \<Rightarrow>
                 if skip E account_config then
                   (Inr items_scraped, w, evs @ [Log_info (''Config asks to skip account '' @ a)])
                 else
                   after_events evs
                     (add_count items_scraped
                        (call_api (fetch_transfers E a account_config)
                           (Fetch_transfers a account_config) w)))
      | _ \<Rightarrow> (Inl AttributeError, w, []))"

text \<open>
  The function has no \<^verbatim>\<open>return\<close> statement: when the loop ends, the local
  \<^verbatim>\<open>items_scraped\<close> is dropped and the call evaluates to \<^verbatim>\<open>None\<close>.
\<close>

definition scrape_transfers ::
  "('cfg, 'w) collaborators \<Rightarrow> pyval \<Rightarrow> 'cfg \<Rightarrow> 'w \<Rightarrow> (pyval, 'cfg, 'w) outcome"
where
  "scrape_transfers E accounts chain_config w =
     (let accounts_config = create_inner_config E chain_config accounts in
      after_events [Create_inner_config chain_config accounts]
        (case iter_py accounts of
           Inl e \<Rightarrow> (Inl e, w, [])
         | Inr as \<Rightarrow>
             (case for_loop (account_body E accounts accounts_config) as 0 w of
                (Inl e, w', evs) \<Rightarrow> (Inl e, w', evs)
              | (Inr items_scraped, w', evs) \<Rightarrow> (Inr PNone, w', evs))))"

subsection \<open>\<^verbatim>\<open>scrape\<close>\<close>

text \<open>
  The body of the loop over the operations (lines 27 to 47). In the last branch the bare
  name \<^verbatim>\<open>exit\<close> is an expression statement: it is evaluated, not called.
\<close>

definition operation_body ::
  "('cfg, 'w) collaborators \<Rightarrow> pyval \<Rightarrow> 'cfg \<Rightarrow> pyval \<Rightarrow> int \<Rightarrow> 'w \<Rightarrow> (int, 'cfg, 'w) outcome"
where
  "operation_body E operations chain_config operation items_scraped w =
     (case operation of
        PStr op \<Rightarrow>
          if startswith op ''_'' then (Inr items_scraped, w, [])
          else if op = ''extrinsics'' then
            (case getitem operations op of
               Inl e \<Rightarrow> (Inl e, w, [])
             | Inr modules \<Rightarrow>
                 add_count items_scraped
                   (scrape_module_calls E modules chain_config (fetch_extrinsics_index E) w))
          else if op = ''extrinsics-list'' then
            (case getitem operations op of
               Inl e \<Rightarrow> (Inl e, w, [])
             | Inr extrinsics_list \<Rightarrow>
                 add_count items_scraped
                   (call_api (fetch_extrinsics E extrinsics_list)
                      (Fetch_extrinsics extrinsics_list) w))
          else if op = ''events'' then
            (case getitem operations op of
               Inl e \<Rightarrow> (Inl e, w, [])
             | Inr modules \<Rightarrow>
                 add_count items_scraped
                   (scrape_module_calls E modules chain_config (fetch_events_index E) w))
          else if op = ''events-list'' then
            (case getitem operations op of
               Inl e \<Rightarrow> (Inl e, w, [])
             | Inr events_list \<Rightarrow>
                 add_count items_scraped
                   (call_api (fetch_events E events_list) (Fetch_events events_list) w))
          else if op = ''transfers'' then
            (case getitem operations op of
               Inl e \<Rightarrow> (Inl e, w, [])
             | Inr accounts \<Rightarrow>
                 (case scrape_transfers E accounts chain_config w of
                    (Inl e, w', evs) \<Rightarrow> (Inl e, w', evs)
                  | (Inr returned, w', evs) \<Rightarrow>
                      add_count items_scraped (await_py returned, w', evs)))
          else
            (Inr items_scraped, w,
             [Log_error (''config contained an operation that does not exist: '' @ op)])
      | _ \<Rightarrow> (Inl AttributeError, w, []))"

definition scrape ::
  "('cfg, 'w) collaborators \<Rightarrow> pyval \<Rightarrow> 'cfg \<Rightarrow> 'w \<Rightarrow> (int, 'cfg, 'w) outcome"
where
  "scrape E operations chain_config w =
     (case iter_py operations of
        Inl e \<Rightarrow> (Inl e, w, [])
      | Inr keys \<Rightarrow> for_loop (operation_body E operations chain_config) keys 0 w)"

section \<open>Vocabulary of the properties\<close>

definition events_of :: "('a, 'cfg, 'w) outcome \<Rightarrow> 'cfg event list" where
  "events_of out = snd (snd out)"

text \<open>A metadata key: a string with the reserved prefix.\<close>

fun is_metadata :: "pyval \<Rightarrow> bool" where
  "is_metadata (PStr s) = startswith s ''_''"
| "is_metadata PNone = False"
| "is_metadata (PBool b) = False"
| "is_metadata (PInt n) = False"
| "is_metadata (PList xs) = False"
| "is_metadata (PDict kvs) = False"

text \<open>The invocations of a fetch entry point.\<close>

fun is_fetch :: "'cfg event \<Rightarrow> bool" where
  "is_fetch (Fetch_function m c cfg) = True"
| "is_fetch (Fetch_extrinsics l) = True"
| "is_fetch (Fetch_events l) = True"
| "is_fetch (Fetch_transfers a cfg) = True"
| "is_fetch (Create_inner_config cfg v) = False"
| "is_fetch (Log_error s) = False"
| "is_fetch (Log_info s) = False"

text \<open>An event that is not a fetch under a scope whose skip flag is set.\<close>

fun unskipped :: "('cfg, 'w) collaborators \<Rightarrow> 'cfg event \<Rightarrow> bool" where
  "unskipped E (Fetch_function m c cfg) = (\<not> skip E cfg)"
| "unskipped E (Fetch_transfers a cfg) = (\<not> skip E cfg)"
| "unskipped E (Fetch_extrinsics l) = True"
| "unskipped E (Fetch_events l) = True"
| "unskipped E (Create_inner_config cfg v) = True"
| "unskipped E (Log_error s) = True"
| "unskipped E (Log_info s) = True"

text \<open>An event that is not a fetch for a name with the reserved prefix.\<close>

fun names_no_metadata :: "'cfg event \<Rightarrow> bool" where
  "names_no_metadata (Fetch_function m c cfg) = (\<not> startswith m ''_'' \<and> \<not> startswith c ''_'')"
| "names_no_metadata (Fetch_transfers a cfg) = (\<not> startswith a ''_'')"
| "names_no_metadata (Fetch_extrinsics l) = True"
| "names_no_metadata (Fetch_events l) = True"
| "names_no_metadata (Create_inner_config cfg v) = True"
| "names_no_metadata (Log_error s) = True"
| "names_no_metadata (Log_info s) = True"

text \<open>
  What the two walkers can emit: scope derivations, informational log records, and
  fetches for names without the reserved prefix under a scope that does not ask to skip.
\<close>

fun walker_event :: "('cfg, 'w) collaborators \<Rightarrow> 'cfg event \<Rightarrow> bool" where
  "walker_event E (Create_inner_config cfg v) = True"
| "walker_event E (Log_info s) = True"
| "walker_event E (Fetch_function m c cfg) =
     (\<not> skip E cfg \<and> \<not> startswith m ''_'' \<and> \<not> startswith c ''_'')"
| "walker_event E (Fetch_transfers a cfg) = (\<not> skip E cfg \<and> \<not> startswith a ''_'')"
| "walker_event E (Fetch_extrinsics l) = False"
| "walker_event E (Fetch_events l) = False"
| "walker_event E (Log_error s) = False"

text \<open>
  An event of the loop over the calls of module \<open>m\<close> that involves no scope other than
  \<open>mcfg\<close>: a fetch for \<open>m\<close> under \<open>mcfg\<close>, or a log record of a skip.
\<close>

fun uses_scope :: "string \<Rightarrow> 'cfg \<Rightarrow> 'cfg event \<Rightarrow> bool" where
  "uses_scope m mcfg (Fetch_function m' c cfg) = (m' = m \<and> cfg = mcfg)"
| "uses_scope m mcfg (Log_info s) = True"
| "uses_scope m mcfg (Create_inner_config cfg v) = False"
| "uses_scope m mcfg (Fetch_extrinsics l) = False"
| "uses_scope m mcfg (Fetch_events l) = False"
| "uses_scope m mcfg (Fetch_transfers a cfg) = False"
| "uses_scope m mcfg (Log_error s) = False"

text \<open>The values of a dict, in its order; no values for anything else.\<close>

fun dict_values :: "pyval \<Rightarrow> pyval list" where
  "dict_values (PDict kvs) = map snd kvs"
| "dict_values PNone = []"
| "dict_values (PBool b) = []"
| "dict_values (PInt n) = []"
| "dict_values (PStr s) = []"
| "dict_values (PList xs) = []"

text \<open>
  An event of \<^verbatim>\<open>scrape_module_calls\<close> on \<open>modules\<close> under \<open>chain_config\<close> whose scopes
  are those the configuration prescribes. A fetch for module \<open>m\<close> and call \<open>c\<close> is under
  the scope of the module, derived from the scope of \<open>modules\<close> and the value of \<open>m\<close>,
  when that value is not a dict, and under the scope derived from the module's scope and
  the value of \<open>c\<close> when it is. A derivation is that of the scope of \<open>modules\<close>, of the
  scope of a module, or of the scope of a call from a value of a dict-shaped module.
\<close>

fun scoped_as_configured ::
  "('cfg, 'w) collaborators \<Rightarrow> pyval \<Rightarrow> 'cfg \<Rightarrow> 'cfg event \<Rightarrow> bool"
where
  "scoped_as_configured E modules chain_config (Fetch_function m c cfg) =
     (case getitem modules m of
        Inl e \<Rightarrow> False
      | Inr calls \<Rightarrow>
          (let module_config =
                 create_inner_config E (create_inner_config E chain_config modules) calls
           in if is_dict calls then
                (case getitem calls c of
                   Inl e \<Rightarrow> False
                 | Inr v \<Rightarrow> cfg = create_inner_config E module_config v)
              else cfg = module_config))"
| "scoped_as_configured E modules chain_config (Create_inner_config r v) =
     ((r = chain_config \<and> v = modules)
      \<or> (r = create_inner_config E chain_config modules \<and> v \<in> set (dict_values modules))
      \<or> list_ex
           (\<lambda>calls. is_dict calls
              \<and> r = create_inner_config E (create_inner_config E chain_config modules) calls
              \<and> v \<in> set (dict_values calls))
           (dict_values modules))"
| "scoped_as_configured E modules chain_config (Log_info s) = True"
| "scoped_as_configured E modules chain_config (Log_error s) = False"
| "scoped_as_configured E modules chain_config (Fetch_extrinsics l) = False"
| "scoped_as_configured E modules chain_config (Fetch_events l) = False"
| "scoped_as_configured E modules chain_config (Fetch_transfers a cfg) = False"

text \<open>The keys that \<^verbatim>\<open>scrape\<close> compares an operation with, in the order of its branches.\<close>

definition operation_names :: "string list" where
  "operation_names =
     [''extrinsics'', ''extrinsics-list'', ''events'', ''events-list'', ''transfers'']"

text \<open>A key that reaches the last branch of \<^verbatim>\<open>scrape\<close>.\<close>

definition unrecognized :: "string \<Rightarrow> bool" where
  "unrecognized k = (\<not> startswith k ''_'' \<and> k \<notin> set operation_names)"

fun is_unrecognized_key :: "pyval \<Rightarrow> bool" where
  "is_unrecognized_key (PStr s) = unrecognized s"
| "is_unrecognized_key PNone = False"
| "is_unrecognized_key (PBool b) = False"
| "is_unrecognized_key (PInt n) = False"
| "is_unrecognized_key (PList xs) = False"
| "is_unrecognized_key (PDict kvs) = False"

fun is_error_log :: "'cfg event \<Rightarrow> bool" where
  "is_error_log (Log_error s) = True"
| "is_error_log (Log_info s) = False"
| "is_error_log (Create_inner_config cfg v) = False"
| "is_error_log (Fetch_function m c cfg) = False"
| "is_error_log (Fetch_extrinsics l) = False"
| "is_error_log (Fetch_events l) = False"
| "is_error_log (Fetch_transfers a cfg) = False"

text \<open>An outcome without its error log records.\<close>

definition drop_error_logs :: "('a, 'cfg, 'w) outcome \<Rightarrow> ('a, 'cfg, 'w) outcome" where
  "drop_error_logs out =
     (case out of (r, w, evs) \<Rightarrow> (r, w, filter (\<lambda>ev. \<not> is_error_log ev) evs))"

section \<open>Collaborators to run the walk on\<close>

text \<open>
  Modelled from the spec: the configuration scope (\<^verbatim>\<open>ScrapeConfig\<close> is not in the
  source). \<^verbatim>\<open>create_inner_config(subtree)\<close> returns a new scope that governs
  \<^verbatim>\<open>subtree\<close> and whose skip flag is the parent's, or'ed with the skip marker of the
  subtree itself; the marker is taken to be the metadata key \<^verbatim>\<open>_skip\<close> with the value
  true. The parameter bag plays no part in the walk and is left out.
\<close>

record scope =
  subtree :: pyval
  skip_flag :: bool

definition skip_marker :: "pyval \<Rightarrow> bool" where
  "skip_marker v =
     (case v of PDict kvs \<Rightarrow> map_of kvs ''_skip'' = Some (PBool True) | _ \<Rightarrow> False)"

definition scope_create_inner_config :: "scope \<Rightarrow> pyval \<Rightarrow> scope" where
  "scope_create_inner_config parent v =
     \<lparr>subtree = v, skip_flag = (skip_flag parent \<or> skip_marker v)\<rparr>"

text \<open>
  An API whose state counts the requests served and whose entry points report fixed
  numbers of items, different for each entry point.
\<close>

definition example_api :: "(scope, nat) collaborators" where
  "example_api =
     \<lparr>create_inner_config = scope_create_inner_config,
      skip = skip_flag,
      fetch_extrinsics_index = (\<lambda>m c cfg w. (Inr 2, Suc w)),
      fetch_events_index = (\<lambda>m c cfg w. (Inr 3, Suc w)),
      fetch_extrinsics = (\<lambda>l w. (Inr 5, Suc w)),
      fetch_events = (\<lambda>l w. (Inr 7, Suc w)),
      fetch_transfers = (\<lambda>a cfg w. (Inr 11, Suc w))\<rparr>"

definition chain_scope :: "pyval \<Rightarrow> scope" where
  "chain_scope operations = \<lparr>subtree = operations, skip_flag = False\<rparr>"

section \<open>Properties of the cache store\<close>

lemma matches_ids:
  "i \<in> set index_list \<Longrightarrow>
   i \<in> set (map ev_id (query_events_id_in db index_list)) \<longleftrightarrow> i \<in> set (map ev_id (events db))"
  by (auto simp: query_events_id_in_def)

text \<open>
  C8. \<^verbatim>\<open>missing_events_from_index_list\<close> returns the ids of the input list that are not
  the id of any row of the Event table, each as often and in the order in which the input
  list has it: it is the input list filtered by absence from the table.
\<close>

theorem missing_events_exact:
  "missing_events_from_index_list db index_list =
     filter (\<lambda>i. i \<notin> ev_id ` set (events db)) index_list"
proof -
  have "filter (\<lambda>i. i \<notin> set (map ev_id (query_events_id_in db index_list))) index_list =
        filter (\<lambda>i. i \<notin> set (map ev_id (events db))) index_list"
    by (rule filter_cong) (simp_all add: matches_ids del: set_map)
  then show ?thesis
    by (simp add: missing_events_from_index_list_def)
qed

text \<open>
  C10. The two point lookups of an event are the same function of the event id and the
  database.
\<close>

theorem read_event_eq_read_event_metadata:
  "read_event db event_id = read_event_metadata db event_id"
  by (simp add: read_event_def read_event_metadata_def)

lemma primary_key_stored_after_insert:
  "primary_key_of i \<in> set (stored_keys (insert_item db i))"
  by (cases i) (simp_all add: stored_keys_def)

lemma insert_all_same_key_twice:
  "primary_key_of a = primary_key_of b \<Longrightarrow>
   insert_all db (is @ [a, b]) = Inl UniqueConstraintViolation"
proof (induction "is" arbitrary: db)
  case Nil
  then show ?case
    using primary_key_stored_after_insert [of a db] by simp
next
  case (Cons i "is")
  then show ?case by simp
qed

text \<open>Two events with different ids are both stored by the flush.\<close>

lemma flush_distinct_keys:
  "flush (write_item
     (write_item \<lparr>stored = \<lparr>blocks = [], extrinsics = [], events = []\<rparr>, staged = []\<rparr>
        (Event_item \<lparr>ev_id = ''14238250-2'', ev_block_number = Some 14238250,
           ev_extrinsic_id = None, ev_module = Some ''balances'', ev_event = Some ''Transfer'',
           ev_params = None, ev_finalized = Some True\<rparr>))
     (Event_item \<lparr>ev_id = ''14238250-3'', ev_block_number = Some 14238250,
        ev_extrinsic_id = None, ev_module = Some ''balances'', ev_event = Some ''Deposit'',
        ev_params = None, ev_finalized = Some True\<rparr>)) =
   Inr \<lparr>stored = \<lparr>blocks = [], extrinsics = [],
          events =
            [\<lparr>ev_id = ''14238250-2'', ev_block_number = Some 14238250,
               ev_extrinsic_id = None, ev_module = Some ''balances'',
               ev_event = Some ''Transfer'', ev_params = None, ev_finalized = Some True\<rparr>,
             \<lparr>ev_id = ''14238250-3'', ev_block_number = Some 14238250,
               ev_extrinsic_id = None, ev_module = Some ''balances'',
               ev_event = Some ''Deposit'', ev_params = None, ev_finalized = Some True\<rparr>]\<rparr>,
        staged = []\<rparr>"
  by (simp add: write_item_def session_add_def flush_def session_commit_def stored_keys_def)

text \<open>
  C9. Writing an item stages it and leaves the stored rows as they are; after writing two
  items with the same primary key, whatever was staged before, the flush fails with the
  unique-constraint violation.
\<close>

theorem write_item_stages_and_duplicate_key_fails:
  "stored (write_item s i) = stored s
   \<and> (primary_key_of a = primary_key_of b \<longrightarrow>
        flush (write_item (write_item s a) b) = Inl UniqueConstraintViolation)"
  by (simp add: write_item_def session_add_def flush_def session_commit_def
      insert_all_same_key_twice)

theorem write_item_stages_and_duplicate_key_fails_witness:
  "primary_key_of
     (Event_item \<lparr>ev_id = ''14238250-2'', ev_block_number = Some 14238250,
        ev_extrinsic_id = None, ev_module = Some ''balances'', ev_event = Some ''Transfer'',
        ev_params = None, ev_finalized = Some True\<rparr>) =
   primary_key_of
     (Event_item \<lparr>ev_id = ''14238250-2'', ev_block_number = Some 14238250,
        ev_extrinsic_id = None, ev_module = Some ''balances'', ev_event = Some ''Deposit'',
        ev_params = None, ev_finalized = Some True\<rparr>)
   \<and> stored (write_item \<lparr>stored = \<lparr>blocks = [], extrinsics = [], events = []\<rparr>, staged = []\<rparr>
        (Event_item \<lparr>ev_id = ''14238250-2'', ev_block_number = Some 14238250,
           ev_extrinsic_id = None, ev_module = Some ''balances'', ev_event = Some ''Transfer'',
           ev_params = None, ev_finalized = Some True\<rparr>)) =
       \<lparr>blocks = [], extrinsics = [], events = []\<rparr>
   \<and> flush (write_item
        (write_item \<lparr>stored = \<lparr>blocks = [], extrinsics = [], events = []\<rparr>, staged = []\<rparr>
           (Event_item \<lparr>ev_id = ''14238250-2'', ev_block_number = Some 14238250,
              ev_extrinsic_id = None, ev_module = Some ''balances'',
              ev_event = Some ''Transfer'', ev_params = None, ev_finalized = Some True\<rparr>))
        (Event_item \<lparr>ev_id = ''14238250-2'', ev_block_number = Some 14238250,
           ev_extrinsic_id = None, ev_module = Some ''balances'', ev_event = Some ''Deposit'',
           ev_params = None, ev_finalized = Some True\<rparr>)) =
       Inl UniqueConstraintViolation"
  using write_item_stages_and_duplicate_key_fails
    [of "\<lparr>stored = \<lparr>blocks = [], extrinsics = [], events = []\<rparr>, staged = []\<rparr>"
        "Event_item \<lparr>ev_id = ''14238250-2'', ev_block_number = Some 14238250,
           ev_extrinsic_id = None, ev_module = Some ''balances'', ev_event = Some ''Transfer'',
           ev_params = None, ev_finalized = Some True\<rparr>"
        "Event_item \<lparr>ev_id = ''14238250-2'', ev_block_number = Some 14238250,
           ev_extrinsic_id = None, ev_module = Some ''balances'', ev_event = Some ''Transfer'',
           ev_params = None, ev_finalized = Some True\<rparr>"
        "Event_item \<lparr>ev_id = ''14238250-2'', ev_block_number = Some 14238250,
           ev_extrinsic_id = None, ev_module = Some ''balances'', ev_event = Some ''Deposit'',
           ev_params = None, ev_finalized = Some True\<rparr>"]
  by simp

section \<open>Properties of the loops\<close>

lemma after_events_Nil [simp]: "after_events [] out = out"
  by (cases out) (simp add: after_events_def)

lemma after_events_triple [simp]: "after_events evs (r, w, evs') = (r, w, evs @ evs')"
  by (simp add: after_events_def)

lemma after_events_twice [simp]:
  "after_events evs (after_events evs' out) = after_events (evs @ evs') out"
  by (cases out) (simp add: after_events_def)

lemma events_of_triple [simp]: "events_of (r, w, evs) = evs"
  by (simp add: events_of_def)

lemma events_of_after_events [simp]: "events_of (after_events evs out) = evs @ events_of out"
  by (cases out) (simp add: events_of_def after_events_def)

lemma events_of_add_count [simp]: "events_of (add_count n out) = events_of out"
  by (cases out) (auto simp: add_count_def events_of_def split: sum.splits)

lemma events_of_call_api [simp]: "events_of (call_api g ev w) = [ev]"
  by (simp add: call_api_def events_of_def split: prod.splits)

text \<open>Elements on which the body does nothing can be left out of the iteration.\<close>

lemma for_loop_filter:
  assumes "\<And>x n w. P x \<Longrightarrow> body x n w = (Inr n, w, [])"
  shows "for_loop body (filter (\<lambda>x. \<not> P x) xs) n w = for_loop body xs n w"
proof (induction xs arbitrary: n w)
  case Nil
  show ?case by simp
next
  case (Cons x xs)
  show ?case
  proof (cases "P x")
    case True
    then show ?thesis using Cons.IH [of n w] by (simp add: assms)
  next
    case False
    then show ?thesis by (simp add: Cons.IH split: prod.splits sum.splits)
  qed
qed


text \<open>What holds of every event of the body holds of every event of the loop.\<close>

lemma for_loop_events_all:
  assumes "\<And>x n w. x \<in> set xs \<Longrightarrow> list_all Q (events_of (body x n w))"
  shows "list_all Q (events_of (for_loop body xs n w))"
  using assms
proof (induction xs arbitrary: n w)
  case Nil
  show ?case by simp
next
  case (Cons x xs)
  have step: "list_all Q (events_of (body x n w))" by (rule Cons.prems) simp
  have rest: "\<And>n' w'. list_all Q (events_of (for_loop body xs n' w'))"
    by (rule Cons.IH) (simp add: Cons.prems)
  show ?case
  proof (cases "body x n w")
    case (fields r w' evs)
    with step rest show ?thesis by (cases r) simp_all
  qed
qed

lemma drop_error_logs_triple [simp]:
  "drop_error_logs (r, w, evs) = (r, w, filter (\<lambda>ev. \<not> is_error_log ev) evs)"
  by (simp add: drop_error_logs_def)

lemma drop_error_logs_after_events [simp]:
  "drop_error_logs (after_events evs out) =
     after_events (filter (\<lambda>ev. \<not> is_error_log ev) evs) (drop_error_logs out)"
  by (cases out) (simp add: drop_error_logs_def after_events_def)


section \<open>Properties of the walkers\<close>

lemmas walk_defs =
  scrape_def operation_body_def scrape_transfers_def account_body_def
  scrape_module_calls_def module_body_def call_body_def deduce_call_config_def
  add_count_def call_api_def await_py_def startswith_def Let_def

lemmas example_defs =
  example_api_def chain_scope_def scope_create_inner_config_def skip_marker_def

subsection \<open>The branches of \<^verbatim>\<open>scrape\<close> and the bodies on metadata keys\<close>

lemma operation_body_metadata:
  "is_metadata k \<Longrightarrow> operation_body E operations cfg k n w = (Inr n, w, [])"
  by (cases k) (simp_all add: operation_body_def)

lemma module_body_metadata:
  "is_metadata k \<Longrightarrow> module_body E f modules cfg k n w = (Inr n, w, [])"
  by (cases k) (simp_all add: module_body_def)

lemma call_body_metadata:
  "is_metadata k \<Longrightarrow> call_body E f m calls cfg k n w = (Inr n, w, [])"
  by (cases k) (simp_all add: call_body_def)

lemma account_body_metadata:
  "is_metadata k \<Longrightarrow> account_body E accounts cfg k n w = (Inr n, w, [])"
  by (cases k) (simp_all add: account_body_def)

lemma unrecognized_branch:
  assumes "unrecognized k"
  shows "\<not> startswith k ''_''" "k \<noteq> ''extrinsics''" "k \<noteq> ''extrinsics-list''"
    "k \<noteq> ''events''" "k \<noteq> ''events-list''" "k \<noteq> ''transfers''"
  using assms by (simp_all add: unrecognized_def operation_names_def)

lemma operation_body_unrecognized:
  assumes "unrecognized k"
  shows "operation_body E operations cfg (PStr k) n w =
     (Inr n, w, [Log_error (''config contained an operation that does not exist: '' @ k)])"
  unfolding operation_body_def
  by (simp only: pyval.case unrecognized_branch [OF assms] if_False)


lemma transfers_branch_events:
  "events_of
     (case scrape_transfers E accounts cfg w of
        (Inl e, w', evs) \<Rightarrow> (Inl e, w', evs)
      | (Inr returned, w', evs) \<Rightarrow> add_count n (await_py returned, w', evs)) =
   events_of (scrape_transfers E accounts cfg w)"
proof -
  obtain r w' evs where "scrape_transfers E accounts cfg w = (r, w', evs)"
    by (cases "scrape_transfers E accounts cfg w")
  then show ?thesis by (cases r) simp_all
qed

lemma recognized_cases:
  "\<not> unrecognized k \<Longrightarrow>
   startswith k ''_'' \<or> k = ''extrinsics'' \<or> k = ''extrinsics-list'' \<or> k = ''events''
   \<or> k = ''events-list'' \<or> k = ''transfers''"
  by (auto simp: unrecognized_def operation_names_def)

lemma operation_body_extrinsics:
  "operation_body E operations cfg (PStr ''extrinsics'') n w =
     (case getitem operations ''extrinsics'' of
        Inl e \<Rightarrow> (Inl e, w, [])
      | Inr modules \<Rightarrow>
          add_count n (scrape_module_calls E modules cfg (fetch_extrinsics_index E) w))"
  by (simp add: operation_body_def startswith_def)

lemma operation_body_extrinsics_list:
  "operation_body E operations cfg (PStr ''extrinsics-list'') n w =
     (case getitem operations ''extrinsics-list'' of
        Inl e \<Rightarrow> (Inl e, w, [])
      | Inr extrinsics_list \<Rightarrow>
          add_count n
            (call_api (fetch_extrinsics E extrinsics_list) (Fetch_extrinsics extrinsics_list) w))"
  by (simp add: operation_body_def startswith_def)

lemma operation_body_events:
  "operation_body E operations cfg (PStr ''events'') n w =
     (case getitem operations ''events'' of
        Inl e \<Rightarrow> (Inl e, w, [])
      | Inr modules \<Rightarrow>
          add_count n (scrape_module_calls E modules cfg (fetch_events_index E) w))"
  by (simp add: operation_body_def startswith_def)

lemma operation_body_events_list:
  "operation_body E operations cfg (PStr ''events-list'') n w =
     (case getitem operations ''events-list'' of
        Inl e \<Rightarrow> (Inl e, w, [])
      | Inr events_list \<Rightarrow>
          add_count n (call_api (fetch_events E events_list) (Fetch_events events_list) w))"
  by (simp add: operation_body_def startswith_def)

lemma operation_body_transfers:
  "operation_body E operations cfg (PStr ''transfers'') n w =
     (case getitem operations ''transfers'' of
        Inl e \<Rightarrow> (Inl e, w, [])
      | Inr accounts \<Rightarrow>
          (case scrape_transfers E accounts cfg w of
             (Inl e, w', evs) \<Rightarrow> (Inl e, w', evs)
           | (Inr returned, w', evs) \<Rightarrow> add_count n (await_py returned, w', evs)))"
  by (simp add: operation_body_def startswith_def)

subsection \<open>The events of the walkers\<close>

lemma deduce_call_config_events:
  "deduce_call_config E calls mcfg c = Inr (ccfg, evs) \<Longrightarrow>
   evs = [] \<or> (\<exists>v. evs = [Create_inner_config mcfg v])"
  by (auto simp: deduce_call_config_def split: if_splits sum.splits)

lemma call_body_walker_events:
  assumes m: "\<not> startswith m ''_''"
  shows "list_all (walker_event E) (events_of (call_body E f m calls mcfg call n w))"
proof (cases call)
  case (PStr c)
  show ?thesis
  proof (cases "deduce_call_config E calls mcfg c")
    case (Inl e)
    with PStr show ?thesis by (simp add: call_body_def)
  next
    case (Inr p)
    obtain ccfg evs where p: "p = (ccfg, evs)" by (cases p)
    from deduce_call_config_events [of E calls mcfg c ccfg evs] Inr p
    have "list_all (walker_event E) evs" by auto
    with PStr Inr p m show ?thesis by (simp add: call_body_def)
  qed
qed (simp_all add: call_body_def)

lemma module_body_walker_events:
  "list_all (walker_event E) (events_of (module_body E f modules ecfg module n w))"
proof (cases module)
  case (PStr m)
  show ?thesis
  proof (cases "startswith m ''_''")
    case True
    with PStr show ?thesis by (simp add: module_body_def)
  next
    case False
    note m = this
    show ?thesis
    proof (cases "getitem modules m")
      case (Inl e)
      with PStr show ?thesis by (simp add: module_body_def)
    next
      case (Inr calls)
      show ?thesis
      proof (cases "iter_py calls")
        case (Inl e)
        with PStr \<open>getitem modules m = Inr calls\<close> show ?thesis
          by (simp add: module_body_def)
      next
        case (Inr cs)
        have "list_all (walker_event E)
                (events_of
                   (for_loop (call_body E f m calls (create_inner_config E ecfg calls)) cs n w))"
          by (rule for_loop_events_all) (rule call_body_walker_events [OF m])
        with PStr Inr \<open>getitem modules m = Inr calls\<close> show ?thesis
          by (simp add: module_body_def)
      qed
    qed
  qed
qed (simp_all add: module_body_def)

lemma scrape_module_calls_walker_events:
  "list_all (walker_event E) (events_of (scrape_module_calls E modules cfg f w))"
proof (cases "iter_py modules")
  case (Inl e)
  then show ?thesis by (simp add: scrape_module_calls_def)
next
  case (Inr ms)
  have "list_all (walker_event E)
          (events_of (for_loop (module_body E f modules (create_inner_config E cfg modules)) ms 0 w))"
    by (rule for_loop_events_all) (rule module_body_walker_events)
  with Inr show ?thesis by (simp add: scrape_module_calls_def)
qed

lemma account_body_walker_events:
  "list_all (walker_event E) (events_of (account_body E accounts acfg account n w))"
  by (cases account) (simp_all add: account_body_def)

lemma scrape_transfers_walker_events:
  "list_all (walker_event E) (events_of (scrape_transfers E accounts cfg w))"
proof (cases "iter_py accounts")
  case (Inl e)
  then show ?thesis by (simp add: scrape_transfers_def)
next
  case (Inr as)
  let ?loop = "for_loop (account_body E accounts (create_inner_config E cfg accounts)) as 0 w"
  have all: "list_all (walker_event E) (events_of ?loop)"
    by (rule for_loop_events_all) (rule account_body_walker_events)
  obtain r w' evs where loop: "?loop = (r, w', evs)" by (cases ?loop)
  with all Inr show ?thesis by (cases r) (simp_all add: scrape_transfers_def)
qed

lemma walker_events_unskipped:
  "list_all (walker_event E) evs \<Longrightarrow> list_all (unskipped E) evs"
proof -
  have "unskipped E ev" if "walker_event E ev" for ev
    using that by (cases ev) simp_all
  then show "list_all (walker_event E) evs \<Longrightarrow> list_all (unskipped E) evs"
    by (auto simp: list_all_iff)
qed

lemma walker_events_no_error_log:
  "list_all (walker_event E) evs \<Longrightarrow> list_all (\<lambda>ev. \<not> is_error_log ev) evs"
proof -
  have "\<not> is_error_log ev" if "walker_event E ev" for ev
    using that by (cases ev) simp_all
  then show "list_all (walker_event E) evs \<Longrightarrow> list_all (\<lambda>ev. \<not> is_error_log ev) evs"
    by (auto simp: list_all_iff)
qed

lemma walker_events_names:
  "list_all (walker_event E) evs \<Longrightarrow> list_all names_no_metadata evs"
proof -
  have "names_no_metadata ev" if "walker_event E ev" for ev
    using that by (cases ev) simp_all
  then show "list_all (walker_event E) evs \<Longrightarrow> list_all names_no_metadata evs"
    by (auto simp: list_all_iff)
qed

text \<open>
  The events of a step of \<^verbatim>\<open>scrape\<close>: those of a walker, the fetch of a list, or the
  error log record for an unrecognized key.
\<close>

lemma operation_body_events_all:
  assumes walker: "\<And>ev. walker_event E ev \<Longrightarrow> Q ev"
    and lists: "\<And>l. Q (Fetch_extrinsics l)" "\<And>l. Q (Fetch_events l)"
    and errors: "\<And>s. is_unrecognized_key x \<Longrightarrow> Q (Log_error s)"
  shows "list_all Q (events_of (operation_body E operations cfg x n w))"
proof (cases x)
  case (PStr k)
  have modules: "list_all Q (events_of (scrape_module_calls E v cfg f w))" for v f
    using scrape_module_calls_walker_events [of E v cfg f w] walker
    by (auto simp: list_all_iff)
  have accounts: "list_all Q (events_of (scrape_transfers E v cfg w))" for v
    using scrape_transfers_walker_events [of E v cfg w] walker
    by (auto simp: list_all_iff)
  show ?thesis
  proof (cases "unrecognized k")
    case True
    with PStr errors show ?thesis by (simp add: operation_body_unrecognized)
  next
    case False
    from recognized_cases [OF this] show ?thesis
    proof (elim disjE)
      assume "startswith k ''_''"
      then have "operation_body E operations cfg (PStr k) n w = (Inr n, w, [])"
        by (simp add: operation_body_metadata)
      with PStr show ?thesis by simp
    next
      assume k: "k = ''extrinsics''"
      show ?thesis
        unfolding PStr k operation_body_extrinsics
        by (cases "getitem operations ''extrinsics''") (simp_all add: modules)
    next
      assume k: "k = ''extrinsics-list''"
      show ?thesis
        unfolding PStr k operation_body_extrinsics_list
        by (cases "getitem operations ''extrinsics-list''") (simp_all add: lists)
    next
      assume k: "k = ''events''"
      show ?thesis
        unfolding PStr k operation_body_events
        by (cases "getitem operations ''events''") (simp_all add: modules)
    next
      assume k: "k = ''events-list''"
      show ?thesis
        unfolding PStr k operation_body_events_list
        by (cases "getitem operations ''events-list''") (simp_all add: lists)
    next
      assume k: "k = ''transfers''"
      show ?thesis
        unfolding PStr k operation_body_transfers
        by (cases "getitem operations ''transfers''")
          (simp_all add: accounts transfers_branch_events)
    qed
  qed
qed (simp_all add: operation_body_def)

lemma scrape_names_no_metadata:
  "list_all names_no_metadata (events_of (scrape E operations cfg w))"
proof (cases "iter_py operations")
  case (Inl e)
  then show ?thesis by (simp add: scrape_def)
next
  case (Inr ks)
  have "walker_event E ev \<Longrightarrow> names_no_metadata ev" for ev
    by (cases ev) simp_all
  then have "list_all names_no_metadata
               (events_of (for_loop (operation_body E operations cfg) ks 0 w))"
    by (intro for_loop_events_all operation_body_events_all) simp_all
  with Inr show ?thesis by (simp add: scrape_def)
qed

subsection \<open>Metadata keys\<close>

text \<open>
  C5. In each of the four loops (over the operations, the modules, the calls of a module
  and the accounts), the keys with the underscore prefix can be removed from the iteration
  without changing the result, the final state or the events: nothing is fetched, derived
  or logged for them. And no fetch that \<^verbatim>\<open>scrape\<close>, \<^verbatim>\<open>scrape_module_calls\<close> or
  \<^verbatim>\<open>scrape_transfers\<close> makes is for a module, call or account name with the prefix.
\<close>

theorem metadata_keys_skipped:
  "for_loop (operation_body E operations cfg) (filter (\<lambda>k. \<not> is_metadata k) ks) n w =
     for_loop (operation_body E operations cfg) ks n w
   \<and> for_loop (module_body E f modules cfg) (filter (\<lambda>k. \<not> is_metadata k) ks) n w =
     for_loop (module_body E f modules cfg) ks n w
   \<and> for_loop (call_body E f m calls cfg) (filter (\<lambda>k. \<not> is_metadata k) ks) n w =
     for_loop (call_body E f m calls cfg) ks n w
   \<and> for_loop (account_body E accounts cfg) (filter (\<lambda>k. \<not> is_metadata k) ks) n w =
     for_loop (account_body E accounts cfg) ks n w
   \<and> list_all names_no_metadata (events_of (scrape E operations cfg w))
   \<and> list_all names_no_metadata (events_of (scrape_module_calls E modules cfg f w))
   \<and> list_all names_no_metadata (events_of (scrape_transfers E accounts cfg w))"
proof -
  have "list_all names_no_metadata (events_of (scrape_module_calls E modules cfg f w))"
    by (rule walker_events_names) (rule scrape_module_calls_walker_events)
  moreover have "list_all names_no_metadata (events_of (scrape_transfers E accounts cfg w))"
    by (rule walker_events_names) (rule scrape_transfers_walker_events)
  ultimately show ?thesis
    by (simp add: for_loop_filter operation_body_metadata module_body_metadata
        call_body_metadata account_body_metadata scrape_names_no_metadata)
qed

text \<open>
  For instance, with metadata at each level of
  \<^verbatim>\<open>{"_auto_hydrate": False, "extrinsics": {"_params": {}, "bounties": ["_note", "propose_bounty"]}}\<close>
  the one fetch is for \<^verbatim>\<open>bounties\<close> and \<^verbatim>\<open>propose_bounty\<close>.
\<close>

lemma scrape_with_metadata:
  "scrape example_api
     (PDict [(''_auto_hydrate'', PBool False),
             (''extrinsics'',
              PDict [(''_params'', PDict []),
                     (''bounties'', PList [PStr ''_note'', PStr ''propose_bounty''])])])
     (chain_scope PNone) 0 =
   (Inr 2, 1,
    [Create_inner_config (chain_scope PNone)
       (PDict [(''_params'', PDict []),
               (''bounties'', PList [PStr ''_note'', PStr ''propose_bounty''])]),
     Create_inner_config
       \<lparr>subtree = PDict [(''_params'', PDict []),
                         (''bounties'', PList [PStr ''_note'', PStr ''propose_bounty''])],
        skip_flag = False\<rparr>
       (PList [PStr ''_note'', PStr ''propose_bounty'']),
     Fetch_function ''bounties'' ''propose_bounty''
       \<lparr>subtree = PList [PStr ''_note'', PStr ''propose_bounty''], skip_flag = False\<rparr>])"
  by (simp add: walk_defs example_defs)

subsection \<open>Null modules and null calls\<close>

text \<open>
  C1. With \<^verbatim>\<open>modules = None\<close>, \<^verbatim>\<open>scrape_module_calls\<close> derives the scope and then
  raises \<^verbatim>\<open>TypeError\<close> at \<^verbatim>\<open>for module in modules\<close>: the fetch function is not
  invoked.
\<close>

theorem scrape_module_calls_None_raises:
  "scrape_module_calls E PNone chain_config fetch_function w =
     (Inl TypeError, w, [Create_inner_config chain_config PNone])"
  by (simp add: scrape_module_calls_def)

text \<open>The same from \<^verbatim>\<open>scrape\<close>, for the configuration \<^verbatim>\<open>{"extrinsics": None}\<close> of the tests.\<close>

lemma scrape_extrinsics_None_raises:
  "scrape E (PDict [(''extrinsics'', PNone)]) chain_config w =
     (Inl TypeError, w, [Create_inner_config chain_config PNone])"
  by (simp add: scrape_def operation_body_def startswith_def scrape_module_calls_def
      add_count_def)

text \<open>
  C3. A module whose value is \<^verbatim>\<open>None\<close> makes \<^verbatim>\<open>scrape_module_calls\<close> raise
  \<^verbatim>\<open>TypeError\<close> at \<^verbatim>\<open>for call in calls\<close>, after the two scope derivations: here for
  \<^verbatim>\<open>{"bounties": None}\<close>.
\<close>

theorem scrape_module_calls_null_module_raises:
  "scrape_module_calls E (PDict [(''bounties'', PNone)]) chain_config fetch_function w =
     (Inl TypeError, w,
      [Create_inner_config chain_config (PDict [(''bounties'', PNone)]),
       Create_inner_config
         (create_inner_config E chain_config (PDict [(''bounties'', PNone)])) PNone])"
  by (simp add: scrape_module_calls_def module_body_def startswith_def)

text \<open>List-shaped and map-shaped module values are walked.\<close>

lemma scrape_module_calls_list_and_map:
  "scrape_module_calls example_api
     (PDict [(''bounties'', PList [PStr ''propose_bounty'']),
             (''system'', PDict [(''remark'', PDict [])])])
     (chain_scope PNone) (fetch_extrinsics_index example_api) 0 =
   (Inr 4, 2,
    [Create_inner_config (chain_scope PNone)
       (PDict [(''bounties'', PList [PStr ''propose_bounty'']),
               (''system'', PDict [(''remark'', PDict [])])]),
     Create_inner_config
       \<lparr>subtree = PDict [(''bounties'', PList [PStr ''propose_bounty'']),
                         (''system'', PDict [(''remark'', PDict [])])],
        skip_flag = False\<rparr>
       (PList [PStr ''propose_bounty'']),
     Fetch_function ''bounties'' ''propose_bounty''
       \<lparr>subtree = PList [PStr ''propose_bounty''], skip_flag = False\<rparr>,
     Create_inner_config
       \<lparr>subtree = PDict [(''bounties'', PList [PStr ''propose_bounty'']),
                         (''system'', PDict [(''remark'', PDict [])])],
        skip_flag = False\<rparr>
       (PDict [(''remark'', PDict [])]),
     Create_inner_config \<lparr>subtree = PDict [(''remark'', PDict [])], skip_flag = False\<rparr>
       (PDict []),
     Fetch_function ''system'' ''remark'' \<lparr>subtree = PDict [], skip_flag = False\<rparr>])"
  by (simp add: walk_defs example_defs)

subsection \<open>Skipped calls\<close>

text \<open>
  C6. When the loop over the calls of a module reaches a call whose scope has the skip
  flag set, it goes on with the remaining calls from the same count and the same state,
  having emitted only the events of deriving the scope, none of which is a fetch, and the
  log record of the skip. And no fetch that \<^verbatim>\<open>scrape_module_calls\<close> makes is under a
  scope whose skip flag is set.
\<close>

theorem skipped_call_not_fetched:
  "(\<not> startswith c ''_'' \<and> deduce_call_config E calls mcfg c = Inr (ccfg, evs) \<and> skip E ccfg \<longrightarrow>
      for_loop (call_body E f m calls mcfg) (PStr c # rest) n w =
        after_events (evs @ [Log_info (''Config asks to skip '' @ m @ '' '' @ c)])
          (for_loop (call_body E f m calls mcfg) rest n w)
      \<and> list_all (\<lambda>ev. \<not> is_fetch ev) evs)
   \<and> list_all (unskipped E) (events_of (scrape_module_calls E modules cfg f w))"
proof -
  have "list_all (\<lambda>ev. \<not> is_fetch ev) evs"
    if "deduce_call_config E calls mcfg c = Inr (ccfg, evs)"
    using deduce_call_config_events [OF that] by auto
  then show ?thesis
    by (simp add: walker_events_unskipped scrape_module_calls_walker_events call_body_def)
qed

theorem skipped_call_not_fetched_witness:
  "\<not> startswith ''remark'' ''_''
   \<and> deduce_call_config example_api
       (PDict [(''remark'', PDict [(''_skip'', PBool True)]), (''set_code'', PDict [])])
       (chain_scope PNone) ''remark'' =
     Inr (\<lparr>subtree = PDict [(''_skip'', PBool True)], skip_flag = True\<rparr>,
          [Create_inner_config (chain_scope PNone) (PDict [(''_skip'', PBool True)])])
   \<and> skip example_api \<lparr>subtree = PDict [(''_skip'', PBool True)], skip_flag = True\<rparr>
   \<and> for_loop
       (call_body example_api (fetch_extrinsics_index example_api) ''system''
          (PDict [(''remark'', PDict [(''_skip'', PBool True)]), (''set_code'', PDict [])])
          (chain_scope PNone))
       [PStr ''remark'', PStr ''set_code''] 0 0 =
     (Inr 2, 1,
      [Create_inner_config (chain_scope PNone) (PDict [(''_skip'', PBool True)]),
       Log_info ''Config asks to skip system remark'',
       Create_inner_config (chain_scope PNone) (PDict []),
       Fetch_function ''system'' ''set_code'' \<lparr>subtree = PDict [], skip_flag = False\<rparr>])
   \<and> list_all (unskipped example_api)
       (events_of (scrape_module_calls example_api
          (PDict [(''system'',
             PDict [(''remark'', PDict [(''_skip'', PBool True)]), (''set_code'', PDict [])])])
          (chain_scope PNone) (fetch_extrinsics_index example_api) 0))"
  using skipped_call_not_fetched
    [of "''remark''" example_api
        "PDict [(''remark'', PDict [(''_skip'', PBool True)]), (''set_code'', PDict [])]"
        "chain_scope PNone"
        "\<lparr>subtree = PDict [(''_skip'', PBool True)], skip_flag = True\<rparr>"
        "[Create_inner_config (chain_scope PNone) (PDict [(''_skip'', PBool True)])]"
        "fetch_extrinsics_index example_api" "''system''" "[PStr ''set_code'']" 0 0
        "PDict [(''system'',
           PDict [(''remark'', PDict [(''_skip'', PBool True)]), (''set_code'', PDict [])])]"
        "chain_scope PNone"]
  by (simp add: walk_defs example_defs)

subsection \<open>List-shaped and map-shaped modules\<close>

lemma call_body_uses_scope:
  "\<not> is_dict calls \<Longrightarrow>
   list_all (uses_scope m mcfg) (events_of (call_body E f m calls mcfg call n w))"
  by (cases call) (simp_all add: call_body_def deduce_call_config_def)

lemma getitem_dict_values: "getitem d k = Inr v \<Longrightarrow> v \<in> set (dict_values d)"
proof (cases d)
  case (PDict kvs)
  assume "getitem d k = Inr v"
  with PDict have "map_of kvs k = Some v" by (simp split: option.splits)
  then have "(k, v) \<in> set kvs" by (rule map_of_SomeD)
  then have "snd (k, v) \<in> snd ` set kvs" by (rule imageI)
  with PDict show ?thesis by simp
qed simp_all

lemma call_body_scoped_as_configured:
  assumes calls: "getitem modules m = Inr calls"
  shows "list_all (scoped_as_configured E modules chain_config)
           (events_of (call_body E f m calls
              (create_inner_config E (create_inner_config E chain_config modules) calls)
              call n w))"
proof (cases call)
  case (PStr c)
  let ?mcfg = "create_inner_config E (create_inner_config E chain_config modules) calls"
  from calls have member: "calls \<in> set (dict_values modules)" by (rule getitem_dict_values)
  show ?thesis
  proof (cases "is_dict calls")
    case False
    with PStr calls show ?thesis
      by (simp add: call_body_def deduce_call_config_def)
  next
    case True
    show ?thesis
    proof (cases "getitem calls c")
      case (Inl e)
      with PStr True show ?thesis by (simp add: call_body_def deduce_call_config_def)
    next
      case (Inr v)
      then have "v \<in> set (dict_values calls)" by (rule getitem_dict_values)
      with member True
      have "scoped_as_configured E modules chain_config (Create_inner_config ?mcfg v)"
        by (auto simp: list_ex_iff)
      with PStr True Inr calls show ?thesis
        by (simp add: call_body_def deduce_call_config_def del: scoped_as_configured.simps(2))
    qed
  qed
qed (simp_all add: call_body_def)

lemma module_body_scoped_as_configured:
  "list_all (scoped_as_configured E modules chain_config)
     (events_of (module_body E f modules (create_inner_config E chain_config modules) module n w))"
proof (cases module)
  case (PStr m)
  show ?thesis
  proof (cases "getitem modules m")
    case (Inl e)
    with PStr show ?thesis by (simp add: module_body_def)
  next
    case (Inr calls)
    let ?ecfg = "create_inner_config E chain_config modules"
    from Inr have "calls \<in> set (dict_values modules)" by (rule getitem_dict_values)
    then have derive: "scoped_as_configured E modules chain_config (Create_inner_config ?ecfg calls)"
      by simp
    show ?thesis
    proof (cases "iter_py calls")
      case (Inl e)
      with PStr \<open>getitem modules m = Inr calls\<close> derive show ?thesis
        by (simp add: module_body_def del: scoped_as_configured.simps(2))
    next
      case (Inr cs)
      have "list_all (scoped_as_configured E modules chain_config)
              (events_of (for_loop (call_body E f m calls (create_inner_config E ?ecfg calls)) cs n w))"
        by (rule for_loop_events_all)
          (rule call_body_scoped_as_configured [OF \<open>getitem modules m = Inr calls\<close>])
      with PStr Inr \<open>getitem modules m = Inr calls\<close> derive show ?thesis
        by (simp add: module_body_def del: scoped_as_configured.simps(2))
    qed
  qed
qed (simp_all add: module_body_def)

lemma scrape_module_calls_scoped_as_configured:
  "list_all (scoped_as_configured E modules chain_config)
     (events_of (scrape_module_calls E modules chain_config f w))"
proof (cases "iter_py modules")
  case (Inl e)
  then show ?thesis by (simp add: scrape_module_calls_def)
next
  case (Inr ms)
  have "list_all (scoped_as_configured E modules chain_config)
          (events_of (for_loop
             (module_body E f modules (create_inner_config E chain_config modules)) ms 0 w))"
    by (rule for_loop_events_all) (rule module_body_scoped_as_configured)
  with Inr show ?thesis by (simp add: scrape_module_calls_def)
qed

lemma module_body_list_shaped:
  "\<not> startswith m ''_'' \<Longrightarrow> getitem modules m = Inr (PList xs) \<Longrightarrow>
   module_body E f modules ecfg (PStr m) n w =
     after_events [Create_inner_config ecfg (PList xs)]
       (for_loop (call_body E f m (PList xs) (create_inner_config E ecfg (PList xs))) xs n w)"
  by (simp add: module_body_def)

lemma call_body_list_shaped:
  "\<not> startswith c ''_'' \<Longrightarrow> \<not> skip E mcfg \<Longrightarrow>
   call_body E f m (PList xs) mcfg (PStr c) n w =
     add_count n (call_api (f m c mcfg) (Fetch_function m c mcfg) w)"
  by (simp add: call_body_def deduce_call_config_def)

text \<open>
  C7. Every fetch of \<^verbatim>\<open>scrape_module_calls\<close> for a module whose value is not a dict is
  under the scope of that module, the one derived from the scope of \<open>modules\<close> and the
  module's value; every fetch for a module whose value is a dict is under the scope
  derived from the module's scope and the value of the call; and every call of
  \<^verbatim>\<open>create_inner_config\<close> on the value of a call is for a dict-shaped module. For a
  module with a list-shaped value, the step of the walker derives the module's scope and
  runs the loop over the calls of the list with that scope, which emits only fetches for
  the module under it and log records of skips; a call of the list that is not skipped is
  fetched under it. The scope deduced for a call of a module that is not a dict is the
  scope handed to the loop, with no derivation; for a dict it is derived from that scope
  and the value under the call.
\<close>

theorem list_shaped_calls_use_module_scope:
  "list_all (scoped_as_configured E modules chain_config)
     (events_of (scrape_module_calls E modules chain_config f w))
   \<and> (\<not> startswith m ''_'' \<and> getitem modules m = Inr (PList xs) \<longrightarrow>
        module_body E f modules ecfg (PStr m) n w =
          after_events [Create_inner_config ecfg (PList xs)]
            (for_loop (call_body E f m (PList xs) (create_inner_config E ecfg (PList xs))) xs n w)
        \<and> list_all (uses_scope m (create_inner_config E ecfg (PList xs)))
            (events_of
               (for_loop (call_body E f m (PList xs) (create_inner_config E ecfg (PList xs)))
                  xs n w)))
   \<and> (\<not> startswith m ''_'' \<longrightarrow>
        scrape_module_calls E (PDict [(m, PList xs)]) chain_config f w =
          after_events
            [Create_inner_config chain_config (PDict [(m, PList xs)]),
             Create_inner_config (create_inner_config E chain_config (PDict [(m, PList xs)]))
               (PList xs)]
            (for_loop
               (call_body E f m (PList xs)
                  (create_inner_config E
                     (create_inner_config E chain_config (PDict [(m, PList xs)])) (PList xs)))
               xs 0 w))
   \<and> (\<not> startswith c ''_'' \<and> \<not> skip E mcfg \<longrightarrow>
        call_body E f m (PList xs) mcfg (PStr c) n w =
          add_count n (call_api (f m c mcfg) (Fetch_function m c mcfg) w))
   \<and> deduce_call_config E (PList xs) mcfg c = Inr (mcfg, [])
   \<and> (\<not> is_dict calls \<longrightarrow> deduce_call_config E calls mcfg c = Inr (mcfg, []))
   \<and> (map_of kvs c = Some v \<longrightarrow>
        deduce_call_config E (PDict kvs) mcfg c =
          Inr (create_inner_config E mcfg v, [Create_inner_config mcfg v]))"
proof -
  have walker: "list_all (scoped_as_configured E modules chain_config)
     (events_of (scrape_module_calls E modules chain_config f w))"
    by (rule scrape_module_calls_scoped_as_configured)
  have loop: "list_all (uses_scope m (create_inner_config E ecfg (PList xs)))
     (events_of
        (for_loop (call_body E f m (PList xs) (create_inner_config E ecfg (PList xs))) xs n w))"
    by (rule for_loop_events_all) (simp add: call_body_uses_scope)
  have one: "scrape_module_calls E (PDict [(m, PList xs)]) chain_config f w =
          after_events
            [Create_inner_config chain_config (PDict [(m, PList xs)]),
             Create_inner_config (create_inner_config E chain_config (PDict [(m, PList xs)]))
               (PList xs)]
            (for_loop
               (call_body E f m (PList xs)
                  (create_inner_config E
                     (create_inner_config E chain_config (PDict [(m, PList xs)])) (PList xs)))
               xs 0 w)"
    if "\<not> startswith m ''_''"
  proof -
    let ?modules = "PDict [(m, PList xs)]"
    let ?ecfg = "create_inner_config E chain_config ?modules"
    have "module_body E f ?modules ?ecfg (PStr m) 0 w =
            after_events [Create_inner_config ?ecfg (PList xs)]
              (for_loop (call_body E f m (PList xs) (create_inner_config E ?ecfg (PList xs))) xs 0 w)"
      using that by (intro module_body_list_shaped) simp_all
    moreover obtain r w' evs where
      "for_loop (call_body E f m (PList xs) (create_inner_config E ?ecfg (PList xs))) xs 0 w =
         (r, w', evs)"
      by (cases "for_loop (call_body E f m (PList xs) (create_inner_config E ?ecfg (PList xs))) xs 0 w")
    ultimately show ?thesis
      by (cases r) (simp_all add: scrape_module_calls_def Let_def)
  qed
  from walker loop one show ?thesis
    by (simp add: module_body_list_shaped call_body_list_shaped deduce_call_config_def)
qed

theorem list_shaped_calls_use_module_scope_witness:
  "\<not> startswith ''bounties'' ''_''
   \<and> getitem (PDict [(''bounties'', PList [PStr ''propose_bounty'', PStr ''close_bounty''])])
       ''bounties'' = Inr (PList [PStr ''propose_bounty'', PStr ''close_bounty''])
   \<and> scrape_module_calls example_api
       (PDict [(''bounties'', PList [PStr ''propose_bounty'', PStr ''close_bounty''])])
       (chain_scope PNone) (fetch_extrinsics_index example_api) 0 =
     (Inr 4, 2,
      [Create_inner_config (chain_scope PNone)
         (PDict [(''bounties'', PList [PStr ''propose_bounty'', PStr ''close_bounty''])]),
       Create_inner_config
         \<lparr>subtree = PDict [(''bounties'', PList [PStr ''propose_bounty'', PStr ''close_bounty''])],
          skip_flag = False\<rparr>
         (PList [PStr ''propose_bounty'', PStr ''close_bounty'']),
       Fetch_function ''bounties'' ''propose_bounty''
         \<lparr>subtree = PList [PStr ''propose_bounty'', PStr ''close_bounty''], skip_flag = False\<rparr>,
       Fetch_function ''bounties'' ''close_bounty''
         \<lparr>subtree = PList [PStr ''propose_bounty'', PStr ''close_bounty''], skip_flag = False\<rparr>])
   \<and> list_all
       (scoped_as_configured example_api
          (PDict [(''bounties'', PList [PStr ''propose_bounty'', PStr ''close_bounty''])])
          (chain_scope PNone))
       (events_of (scrape_module_calls example_api
          (PDict [(''bounties'', PList [PStr ''propose_bounty'', PStr ''close_bounty''])])
          (chain_scope PNone) (fetch_extrinsics_index example_api) 0))
   \<and> \<not> startswith ''propose_bounty'' ''_''
   \<and> \<not> skip example_api
       \<lparr>subtree = PList [PStr ''propose_bounty'', PStr ''close_bounty''], skip_flag = False\<rparr>
   \<and> call_body example_api (fetch_extrinsics_index example_api) ''bounties''
       (PList [PStr ''propose_bounty'', PStr ''close_bounty''])
       \<lparr>subtree = PList [PStr ''propose_bounty'', PStr ''close_bounty''], skip_flag = False\<rparr>
       (PStr ''propose_bounty'') 0 0 =
     (Inr 2, 1,
      [Fetch_function ''bounties'' ''propose_bounty''
         \<lparr>subtree = PList [PStr ''propose_bounty'', PStr ''close_bounty''], skip_flag = False\<rparr>])
   \<and> \<not> is_dict (PList [PStr ''propose_bounty'', PStr ''close_bounty''])
   \<and> map_of [(''propose_bounty'', PDict [(''_skip'', PBool True)])] ''propose_bounty'' =
       Some (PDict [(''_skip'', PBool True)])
   \<and> deduce_call_config example_api (PDict [(''propose_bounty'', PDict [(''_skip'', PBool True)])])
       \<lparr>subtree = PList [PStr ''propose_bounty'', PStr ''close_bounty''], skip_flag = False\<rparr>
       ''propose_bounty'' =
       Inr (\<lparr>subtree = PDict [(''_skip'', PBool True)], skip_flag = True\<rparr>,
            [Create_inner_config
               \<lparr>subtree = PList [PStr ''propose_bounty'', PStr ''close_bounty''],
                skip_flag = False\<rparr>
               (PDict [(''_skip'', PBool True)])])"
  using list_shaped_calls_use_module_scope
    [where E = example_api
       and modules = "PDict [(''bounties'', PList [PStr ''propose_bounty'', PStr ''close_bounty''])]"
       and chain_config = "chain_scope PNone"
       and f = "fetch_extrinsics_index example_api"
       and w = 0 and n = 0
       and m = "''bounties''"
       and xs = "[PStr ''propose_bounty'', PStr ''close_bounty'']"
       and ecfg = "\<lparr>subtree =
           PDict [(''bounties'', PList [PStr ''propose_bounty'', PStr ''close_bounty''])],
           skip_flag = False\<rparr>"
       and c = "''propose_bounty''"
       and mcfg = "\<lparr>subtree = PList [PStr ''propose_bounty'', PStr ''close_bounty''],
           skip_flag = False\<rparr>"
       and calls = "PList [PStr ''propose_bounty'', PStr ''close_bounty'']"
       and kvs = "[(''propose_bounty'', PDict [(''_skip'', PBool True)])]"
       and v = "PDict [(''_skip'', PBool True)]"]
  by (simp add: walk_defs example_defs)

subsection \<open>Unrecognized operations\<close>









subsection \<open>Transfers\<close>

text \<open>
  \<^verbatim>\<open>scrape_transfers\<close> never returns a count: when it returns, it returns \<^verbatim>\<open>None\<close>.
\<close>

lemma scrape_transfers_returns_None:
  "fst (scrape_transfers E accounts cfg w) = Inr v \<Longrightarrow> v = PNone"
  by (auto simp: scrape_transfers_def after_events_def Let_def split: sum.splits prod.splits)

text \<open>Hence the step of \<^verbatim>\<open>scrape\<close> on the key \<^verbatim>\<open>transfers\<close> always raises.\<close>

lemma operation_body_transfers_raises:
  "\<exists>e. fst (operation_body E operations cfg (PStr ''transfers'') n w) = Inl e"
  by (auto simp: operation_body_def startswith_def add_count_def await_py_def
      split: sum.splits prod.splits)

text \<open>
  C2. For \<^verbatim>\<open>{"transfers": {"alice": {}}}\<close> the transfers of the account are fetched,
  the fetch reporting 11 items; \<^verbatim>\<open>scrape_transfers\<close> then returns \<^verbatim>\<open>None\<close> and
  \<^verbatim>\<open>scrape\<close> raises \<^verbatim>\<open>TypeError\<close> on awaiting it, instead of returning 11.
\<close>

theorem scrape_transfers_count_lost:
  "scrape_transfers example_api (PDict [(''alice'', PDict [])]) (chain_scope PNone) 0 =
     (Inr PNone, 1,
      [Create_inner_config (chain_scope PNone) (PDict [(''alice'', PDict [])]),
       Fetch_transfers ''alice'' \<lparr>subtree = PDict [(''alice'', PDict [])], skip_flag = False\<rparr>])
   \<and> scrape example_api (PDict [(''transfers'', PDict [(''alice'', PDict [])])])
       (chain_scope PNone) 0 =
     (Inl TypeError, 1,
      [Create_inner_config (chain_scope PNone) (PDict [(''alice'', PDict [])]),
       Fetch_transfers ''alice'' \<lparr>subtree = PDict [(''alice'', PDict [])], skip_flag = False\<rparr>])"
  by (simp add: walk_defs example_defs)

end
